theory Spec2Isabelle
  imports Complex_Main "HOL-Library.Char_ord" "HOL-Library.List_Lexorder"
begin

section \<open>Python values shared by the three modules\<close>

text \<open>
  The agent's reply, the trace and the planned tool calls are all JSON-shaped Python
  values (the results of \<^verbatim>\<open>json.loads\<close>, dict and list literals). A dict is an
  association list read with \<open>map_of\<close>. JSON numbers are restricted to integers.
\<close>

datatype json =
    JNull
  | JBool bool
  | JInt int
  | JStr string
  | JArr "json list"
  | JObj "(string \<times> json) list"

datatype py_error = TypeError | AttributeError | ValidationError

text \<open>Python truthiness, as used by \<^verbatim>\<open>if x\<close>, \<^verbatim>\<open>x or y\<close> and \<^verbatim>\<open>not x\<close>.\<close>

fun truthy :: "json \<Rightarrow> bool" where
  "truthy JNull = False"
| "truthy (JBool b) = b"
| "truthy (JInt i) = (i \<noteq> 0)"
| "truthy (JStr s) = (s \<noteq> [])"
| "truthy (JArr xs) = (xs \<noteq> [])"
| "truthy (JObj kvs) = (kvs \<noteq> [])"

text \<open>\<^verbatim>\<open>x.get(key, default)\<close>: only a dict has the method.\<close>

fun dict_get :: "json \<Rightarrow> string \<Rightarrow> json \<Rightarrow> py_error + json" where
  "dict_get (JObj kvs) k d = Inr (case map_of kvs k of None \<Rightarrow> d | Some v \<Rightarrow> v)"
| "dict_get _ k d = Inl AttributeError"

text \<open>\<^verbatim>\<open>for x in v\<close>: a list yields its items, a dict its keys, a string its characters.\<close>

fun py_iter :: "json \<Rightarrow> py_error + json list" where
  "py_iter (JArr xs) = Inr xs"
| "py_iter (JObj kvs) = Inr (map JStr (remdups (map fst kvs)))"
| "py_iter (JStr s) = Inr (map (\<lambda>c. JStr [c]) s)"
| "py_iter _ = Inl TypeError"

text \<open>
  Hashing a value used as a dict key: lists and dicts are unhashable, and \<^verbatim>\<open>True\<close>,
  \<^verbatim>\<open>False\<close> are the same keys as \<^verbatim>\<open>1\<close>, \<^verbatim>\<open>0\<close>.
\<close>

fun py_key :: "json \<Rightarrow> py_error + json" where
  "py_key (JArr xs) = Inl TypeError"
| "py_key (JObj kvs) = Inl TypeError"
| "py_key (JBool b) = Inr (JInt (if b then 1 else 0))"
| "py_key v = Inr v"

text \<open>A comprehension whose body may raise stops at the first exception.\<close>

fun mapE :: "('a \<Rightarrow> py_error + 'b) \<Rightarrow> 'a list \<Rightarrow> py_error + 'b list" where
  "mapE f [] = Inr []"
| "mapE f (x # xs) =
     (case f x of
        Inl e \<Rightarrow> Inl e
      | Inr y \<Rightarrow> (case mapE f xs of Inl e \<Rightarrow> Inl e | Inr ys \<Rightarrow> Inr (y # ys)))"

text \<open>\<^verbatim>\<open>sep.join(xs)\<close> on strings, and on arbitrary values, where a non-string raises.\<close>

fun join :: "string \<Rightarrow> string list \<Rightarrow> string" where
  "join sep [] = []"
| "join sep [x] = x"
| "join sep (x # y # ys) = x @ sep @ join sep (y # ys)"

fun strs_of :: "json list \<Rightarrow> py_error + string list" where
  "strs_of [] = Inr []"
| "strs_of (JStr s # vs) =
     (case strs_of vs of Inl e \<Rightarrow> Inl e | Inr ss \<Rightarrow> Inr (s # ss))"
| "strs_of (_ # vs) = Inl TypeError"

definition str_join :: "string \<Rightarrow> json list \<Rightarrow> py_error + string" where
  "str_join sep vs = (case strs_of vs of Inl e \<Rightarrow> Inl e | Inr ss \<Rightarrow> Inr (join sep ss))"

section \<open>deepeval\_utils/local\_metrics.py\<close>

record ToolCall =
  name :: string
  parameters :: json

record ToolSelectionScore =
  score :: real
  reason :: string

subsection \<open>LocalToolCorrectnessMetric.\_compute\_selection\_score\<close>

text \<open>
  The metric object carries \<^verbatim>\<open>should_exact_match\<close> and, when the attribute has been
  set, \<^verbatim>\<open>expected_tools\<close> (\<open>None\<close> when \<^verbatim>\<open>hasattr\<close> is false). The catalogue is
  \<^verbatim>\<open>Optional[List[ToolCall]]\<close>; \<^verbatim>\<open>not available_tools\<close> holds for \<^verbatim>\<open>None\<close> and for
  the empty list. \<^verbatim>\<open>sorted\<close> of a set of strings is \<open>sorted_list_of_set\<close>.
\<close>

definition selection_mismatch_details :: "string list \<Rightarrow> string list \<Rightarrow> string list" where
  "selection_mismatch_details missing extra =
     (if missing \<noteq> [] then [''missing '' @ join '', '' missing] else []) @
     (if extra \<noteq> [] then [''extra '' @ join '', '' extra] else [])"

text \<open>
  The exact-match block: \<open>Some\<close> of the returned score when \<^verbatim>\<open>missing or extra\<close>,
  \<open>None\<close> when control falls through to the final \<^verbatim>\<open>return\<close>.
\<close>

definition exact_match_check :: "ToolCall list \<Rightarrow> string list \<Rightarrow> ToolSelectionScore option" where
  "exact_match_check expected_tools called_names =
     (let expected_names = set (map name expected_tools);
          missing = sorted_list_of_set (expected_names - set called_names);
          extra = sorted_list_of_set (set called_names - expected_names)
      in if missing \<noteq> [] \<or> extra \<noteq> [] then
           Some \<lparr>score = 0,
                 reason = ''Tool selection mismatch: ''
                          @ join ''; '' (selection_mismatch_details missing extra) @ ''.''\<rparr>
         else None)"

definition compute_selection_score ::
  "bool \<Rightarrow> ToolCall list option \<Rightarrow> ToolCall list \<Rightarrow> ToolCall list option \<Rightarrow> ToolSelectionScore"
where
  "compute_selection_score should_exact_match expected_tools tools_called available_tools =
     (if available_tools = None \<or> available_tools = Some [] then
        \<lparr>score = 1,
         reason = ''No available tools catalogue provided; assuming selection is valid.''\<rparr>
      else
        let available_names = set (map name (the available_tools));
            called_names = map name tools_called;
            unknown_tools =
              sorted_list_of_set (set (filter (\<lambda>n. n \<notin> available_names) called_names))
        in
          if unknown_tools \<noteq> [] then
            \<lparr>score = 0,
             reason = ''Agent invoked unsupported tools: '' @ join '', '' unknown_tools @ ''.''\<rparr>
          else
            (case (if should_exact_match \<and> expected_tools \<noteq> None
                   then exact_match_check (the expected_tools) called_names
                   else None)
             of
               Some mismatch \<Rightarrow> mismatch
             | None \<Rightarrow> \<lparr>score = 1, reason = ''Tool selection matches expectation.''\<rparr>))"

subsection \<open>LocalStepEfficiencyMetric.\_score\_trace\<close>

text \<open>\<^verbatim>\<open>trace.get("children", []) if isinstance(trace, dict) else []\<close>\<close>

fun trace_children :: "json \<Rightarrow> json" where
  "trace_children (JObj kvs) = (case map_of kvs ''children'' of None \<Rightarrow> JArr [] | Some v \<Rightarrow> v)"
| "trace_children _ = JArr []"

text \<open>\<^verbatim>\<open>[child.get("name") for child in children]\<close>\<close>

definition tool_sequence :: "json \<Rightarrow> py_error + json list" where
  "tool_sequence trace =
     (case py_iter (trace_children trace) of
        Inl e \<Rightarrow> Inl e
      | Inr children \<Rightarrow> mapE (\<lambda>child. dict_get child ''name'' JNull) children)"

text \<open>
  The expected names are strings, so an observed name equals one of them exactly when it
  is that string; \<^verbatim>\<open>', '.join(extra)\<close> raises on an observed name that is not a string.
\<close>

definition extra_details :: "json list \<Rightarrow> py_error + string list" where
  "extra_details extra =
     (if extra \<noteq> [] then
        (case str_join '', '' extra of Inl e \<Rightarrow> Inl e | Inr s \<Rightarrow> Inr [''extra '' @ s])
      else Inr [])"

definition deviation :: "string list \<Rightarrow> json list \<Rightarrow> py_error + ToolSelectionScore" where
  "deviation expected observed =
     (let missing = filter (\<lambda>n. JStr n \<notin> set observed) expected;
          extra = filter (\<lambda>v. v \<notin> set (map JStr expected)) observed;
          missing_details =
            (if missing \<noteq> [] then [''missing '' @ join '', '' missing] else [])
      in (case extra_details extra of
            Inl e \<Rightarrow> Inl e
          | Inr extras \<Rightarrow>
              (let details = missing_details @ extras;
                   details' =
                     (if details = [] \<and> observed \<noteq> map JStr expected
                      then details @ [''tool order differed from expectation'']
                      else details)
               in Inr \<lparr>score = 0,
                       reason = ''Trace deviated from expected sequence: ''
                                @ join ''; '' details' @ ''.''\<rparr>)))"

definition score_trace :: "string list \<Rightarrow> json \<Rightarrow> py_error + ToolSelectionScore" where
  "score_trace expected trace =
     (case tool_sequence trace of
        Inl e \<Rightarrow> Inl e
      | Inr observed \<Rightarrow>
          (if observed = map JStr expected then
             Inr \<lparr>score = 1, reason = ''Execution matched expected minimal tool sequence.''\<rparr>
           else deviation expected observed))"

text \<open>\<^verbatim>\<open>_get_score\<close>: \<^verbatim>\<open>self._score_trace(test_case._trace_dict or {})\<close>\<close>

definition get_score :: "string list \<Rightarrow> json \<Rightarrow> py_error + ToolSelectionScore" where
  "get_score expected trace_dict =
     score_trace expected (if truthy trace_dict then trace_dict else JObj [])"

section \<open>deepeval/evaluate\_tool\_calling.py\<close>

text \<open>
  \<^verbatim>\<open>build_tool_call\<close> constructs the evaluation library's \<^verbatim>\<open>ToolCall\<close>, whose
  \<^verbatim>\<open>name\<close> field is a string: any other value is refused by the constructor.
  \<^verbatim>\<open>parameters or {}\<close> replaces a falsy argument by the empty dict. The record
  keeps the argument handed to the constructor; what the library stores of it is not
  modelled, and the scorers read the names only.
\<close>

definition build_tool_call :: "json \<Rightarrow> json \<Rightarrow> py_error + ToolCall" where
  "build_tool_call nm params =
     (case nm of
        JStr s \<Rightarrow> Inr \<lparr>name = s, parameters = (if truthy params then params else JObj [])\<rparr>
      | _ \<Rightarrow> Inl ValidationError)"

subsection \<open>build\_trace\<close>

text \<open>The list walked by \<^verbatim>\<open>for call in agent_output.get("toolCalls", [])\<close>.\<close>

definition tool_calls :: "json \<Rightarrow> py_error + json list" where
  "tool_calls agent_output =
     (case dict_get agent_output ''toolCalls'' (JArr []) of
        Inl e \<Rightarrow> Inl e
      | Inr tcs \<Rightarrow> py_iter tcs)"

text \<open>
  \<^verbatim>\<open>metadata = agent_output.get("metadata") or {}\<close> and the list walked by
  \<^verbatim>\<open>for result in metadata.get("toolResults", [])\<close>.
\<close>

definition tool_results :: "json \<Rightarrow> py_error + json list" where
  "tool_results agent_output =
     (case dict_get agent_output ''metadata'' JNull of
        Inl e \<Rightarrow> Inl e
      | Inr md \<Rightarrow>
          (case dict_get (if truthy md then md else JObj []) ''toolResults'' (JArr []) of
             Inl e \<Rightarrow> Inl e
           | Inr trs \<Rightarrow> py_iter trs))"

text \<open>
  \<^verbatim>\<open>tool_results_by_name[result.get("toolName")] = result.get("result")\<close>, one entry
  after the other; the dict is a map from hashed keys to values.
\<close>

fun collect_results :: "json list \<Rightarrow> (json \<rightharpoonup> json) \<Rightarrow> py_error + (json \<rightharpoonup> json)" where
  "collect_results [] m = Inr m"
| "collect_results (result # rest) m =
     (case dict_get result ''result'' JNull of
        Inl e \<Rightarrow> Inl e
      | Inr v \<Rightarrow>
          (case dict_get result ''toolName'' JNull of
             Inl e \<Rightarrow> Inl e
           | Inr k \<Rightarrow>
               (case py_key k of
                  Inl e \<Rightarrow> Inl e
                | Inr k' \<Rightarrow> collect_results rest (m(k' \<mapsto> v)))))"

text \<open>The dict appended to \<^verbatim>\<open>trace["children"]\<close> for one reported call.\<close>

definition trace_child :: "(json \<rightharpoonup> json) \<Rightarrow> json \<Rightarrow> py_error + json" where
  "trace_child tool_results_by_name call =
     (case dict_get call ''name'' JNull of
        Inl e \<Rightarrow> Inl e
      | Inr nm \<Rightarrow>
          (case dict_get call ''parameters'' (JObj []) of
             Inl e \<Rightarrow> Inl e
           | Inr ps \<Rightarrow>
               (case py_key nm of
                  Inl e \<Rightarrow> Inl e
                | Inr k \<Rightarrow>
                    Inr (JObj
                      [(''name'', nm),
                       (''type'', JStr ''tool''),
                       (''input'', JObj [(''inputParameters'', ps)]),
                       (''output'',
                          (case tool_results_by_name k of None \<Rightarrow> JNull | Some v \<Rightarrow> v)),
                       (''children'', JArr [])]))))"

definition build_trace :: "string \<Rightarrow> json \<Rightarrow> py_error + json" where
  "build_trace prompt_text agent_output =
     (case dict_get agent_output ''response'' (JStr []) of
        Inl e \<Rightarrow> Inl e
      | Inr response \<Rightarrow>
          (case tool_results agent_output of
             Inl e \<Rightarrow> Inl e
           | Inr results \<Rightarrow>
               (case collect_results results Map.empty of
                  Inl e \<Rightarrow> Inl e
                | Inr tool_results_by_name \<Rightarrow>
                    (case tool_calls agent_output of
                       Inl e \<Rightarrow> Inl e
                     | Inr calls \<Rightarrow>
                         (case mapE (trace_child tool_results_by_name) calls of
                            Inl e \<Rightarrow> Inl e
                          | Inr children \<Rightarrow>
                              Inr (JObj
                                [(''name'', JStr ''agentic_service''),
                                 (''type'', JStr ''agent''),
                                 (''input'', JObj [(''input'', JStr prompt_text)]),
                                 (''output'', response),
                                 (''children'', JArr children)]))))))"

subsection \<open>main: the scorer inputs of one scenario\<close>

text \<open>
  \<^verbatim>\<open>[build_tool_call(call.get("name", ""), call.get("parameters"))
    for call in agent_output.get("toolCalls", []) if call.get("name")]\<close>
\<close>

fun called_from :: "json list \<Rightarrow> py_error + ToolCall list" where
  "called_from [] = Inr []"
| "called_from (call # calls) =
     (case dict_get call ''name'' JNull of
        Inl e \<Rightarrow> Inl e
      | Inr c \<Rightarrow>
          (if truthy c then
             (case dict_get call ''name'' (JStr []) of
                Inl e \<Rightarrow> Inl e
              | Inr nm \<Rightarrow>
                  (case dict_get call ''parameters'' JNull of
                     Inl e \<Rightarrow> Inl e
                   | Inr ps \<Rightarrow>
                       (case build_tool_call nm ps of
                          Inl e \<Rightarrow> Inl e
                        | Inr t \<Rightarrow>
                            (case called_from calls of
                               Inl e \<Rightarrow> Inl e
                             | Inr ts \<Rightarrow> Inr (t # ts)))))
           else called_from calls))"

definition tools_called :: "json \<Rightarrow> py_error + ToolCall list" where
  "tools_called agent_output =
     (case tool_calls agent_output of Inl e \<Rightarrow> Inl e | Inr calls \<Rightarrow> called_from calls)"

text \<open>\<^verbatim>\<open>[build_tool_call(name) for name in ["math", "filesystem", "rag"]]\<close>\<close>

definition available_tools :: "ToolCall list" where
  "available_tools =
     map (\<lambda>n. \<lparr>name = n, parameters = JObj []\<rparr>) [''math'', ''filesystem'', ''rag'']"

text \<open>
  The body of the scenario loop from the agent's reply on: the two scores that
  \<^verbatim>\<open>tool_metric\<close> (exact match on, the scenario's expected tools attached) and
  \<^verbatim>\<open>efficiency_metric\<close> (expecting the names of the expected tools) compute from
  \<^verbatim>\<open>tools_called\<close> and from \<^verbatim>\<open>test_case._trace_dict\<close>. These are the values of
  the two overridden scoring methods; what the library's \<^verbatim>\<open>measure\<close> makes of them
  for \<^verbatim>\<open>metric.score\<close>, and its validation of the test case, are not modelled.
\<close>

definition scenario_scores ::
  "string \<Rightarrow> ToolCall list \<Rightarrow> json \<Rightarrow> py_error + ToolSelectionScore \<times> ToolSelectionScore"
where
  "scenario_scores prompt_text expected_tools agent_output =
     (case tools_called agent_output of
        Inl e \<Rightarrow> Inl e
      | Inr called \<Rightarrow>
          (case build_trace prompt_text agent_output of
             Inl e \<Rightarrow> Inl e
           | Inr trace \<Rightarrow>
               (case get_score (map name expected_tools) trace of
                  Inl e \<Rightarrow> Inl e
                | Inr efficiency \<Rightarrow>
                    Inr (compute_selection_score True (Some expected_tools) called
                           (Some available_tools),
                         efficiency))))"

section \<open>langraph/orchestrator.py\<close>

record PipelineState =
  prompt :: string
  artifacts :: "string list"
  tools_planned :: "json list"
  context' :: json
  step :: int

definition append_tool :: "PipelineState \<Rightarrow> string \<Rightarrow> json \<Rightarrow> PipelineState" where
  "append_tool state nm params =
     state\<lparr>tools_planned :=
       tools_planned state @ [JObj [(''tool'', JStr nm), (''parameters'', params)]]\<rparr>"

definition add_artifact :: "PipelineState \<Rightarrow> string \<Rightarrow> PipelineState" where
  "add_artifact state description = state\<lparr>artifacts := artifacts state @ [description]\<rparr>"

text \<open>
  \<^verbatim>\<open>Path(p).as_posix()\<close> of the standard library, for POSIX paths: empty and \<^verbatim>\<open>.\<close>
  components are dropped, the root (one slash, or exactly two) is kept, and the empty
  relative path is \<^verbatim>\<open>.\<close>.
\<close>

fun split_on :: "char \<Rightarrow> string \<Rightarrow> string list" where
  "split_on c [] = [[]]"
| "split_on c (x # xs) =
     (if x = c then [] # split_on c xs
      else (case split_on c xs of [] \<Rightarrow> [[x]] | w # ws \<Rightarrow> (x # w) # ws))"

definition as_posix :: "string \<Rightarrow> string" where
  "as_posix p =
     (let parts = filter (\<lambda>w. w \<noteq> [] \<and> w \<noteq> ''.'') (split_on CHR ''/'' p);
          root = (if take 2 p = ''//'' \<and> take 3 p \<noteq> ''///'' then ''//''
                  else if take 1 p = ''/'' then ''/'' else [])
      in if root = [] \<and> parts = [] then ''.'' else root @ join ''/'' parts)"

subsection \<open>The ten stages\<close>

definition dataset_stage :: "PipelineState \<Rightarrow> PipelineState" where
  "dataset_stage state =
     (let raw_path = as_posix ''./tmp_pipeline_raw.txt'';
          state = append_tool state ''filesystem''
                    (JObj [(''action'', JStr ''write''),
                           (''path'', JStr raw_path),
                           (''content'', JStr ''dataset=12,7,23'')]);
          state = add_artifact state (''raw dataset written to '' @ raw_path)
      in state\<lparr>step := step state + 1\<rparr>)"

definition metadata_stage :: "PipelineState \<Rightarrow> PipelineState" where
  "metadata_stage state =
     (let metadata_path = as_posix ''./tmp_pipeline_metadata.json'';
          state = append_tool state ''filesystem''
                    (JObj [(''action'', JStr ''write''),
                           (''path'', JStr metadata_path),
                           (''content'', JStr ''{\"source\": \"synthetic\", \"fields\": 3}'')]);
          state = add_artifact state (''metadata stored at '' @ metadata_path)
      in state\<lparr>step := step state + 1\<rparr>)"

definition verify_raw_stage :: "PipelineState \<Rightarrow> PipelineState" where
  "verify_raw_stage state =
     (let raw_path = as_posix ''./tmp_pipeline_raw.txt'';
          state = append_tool state ''filesystem''
                    (JObj [(''action'', JStr ''read''), (''path'', JStr raw_path)]);
          state = add_artifact state (''raw dataset verified from '' @ raw_path)
      in state\<lparr>step := step state + 1\<rparr>)"

definition verify_metadata_stage :: "PipelineState \<Rightarrow> PipelineState" where
  "verify_metadata_stage state =
     (let metadata_path = as_posix ''./tmp_pipeline_metadata.json'';
          state = append_tool state ''filesystem''
                    (JObj [(''action'', JStr ''read''), (''path'', JStr metadata_path)]);
          state = add_artifact state (''metadata verified from '' @ metadata_path)
      in state\<lparr>step := step state + 1\<rparr>)"

definition summary_stage :: "PipelineState \<Rightarrow> PipelineState" where
  "summary_stage state =
     (let summary_path = as_posix ''./tmp_pipeline_summary.txt'';
          state = append_tool state ''filesystem''
                    (JObj [(''action'', JStr ''write''),
                           (''path'', JStr summary_path),
                           (''content'', JStr ''Summary: collected 3 synthetic observations.'')]);
          state = add_artifact state (''summary stored at '' @ summary_path)
      in state\<lparr>step := step state + 1\<rparr>)"

definition rag_stage :: "PipelineState \<Rightarrow> PipelineState" where
  "rag_stage state =
     (let state = append_tool state ''rag''
                    (JObj [(''query'', JStr ''evaluation playbooks and best practices'')]);
          state = add_artifact state ''rag query executed for evaluation playbooks''
      in state\<lparr>step := step state + 1\<rparr>)"

definition rag_capture_stage :: "PipelineState \<Rightarrow> PipelineState" where
  "rag_capture_stage state =
     (let rag_path = as_posix ''./tmp_pipeline_rag.txt'';
          state = append_tool state ''filesystem''
                    (JObj [(''action'', JStr ''write''),
                           (''path'', JStr rag_path),
                           (''content'', JStr
                              ''RAG insights: Follow the evaluation playbook to validate every artifact.'')]);
          state = add_artifact state (''rag insights captured at '' @ rag_path)
      in state\<lparr>step := step state + 1\<rparr>)"

definition rag_verify_stage :: "PipelineState \<Rightarrow> PipelineState" where
  "rag_verify_stage state =
     (let rag_path = as_posix ''./tmp_pipeline_rag.txt'';
          state = append_tool state ''filesystem''
                    (JObj [(''action'', JStr ''read''), (''path'', JStr rag_path)]);
          state = add_artifact state (''rag insights verified from '' @ rag_path)
      in state\<lparr>step := step state + 1\<rparr>)"

definition report_stage :: "PipelineState \<Rightarrow> PipelineState" where
  "report_stage state =
     (let report_path = as_posix ''./tmp_pipeline_report.md'';
          state = append_tool state ''filesystem''
                    (JObj [(''action'', JStr ''write''),
                           (''path'', JStr report_path),
                           (''content'', JStr
                              ''# Evaluation Report\<newline>\<newline>- Raw data stored\<newline>- Metadata verified\<newline>- RAG insights appended'')]);
          state = add_artifact state (''report drafted at '' @ report_path)
      in state\<lparr>step := step state + 1\<rparr>)"

definition final_stage :: "PipelineState \<Rightarrow> PipelineState" where
  "final_stage state =
     (let state = append_tool state ''filesystem''
                    (JObj [(''action'', JStr ''list''), (''path'', JStr ''.'')]);
          state = add_artifact state ''workspace inventory captured''
      in state\<lparr>step := step state + 1\<rparr>)"

subsection \<open>The graph\<close>

record graph =
  nodes :: "(string \<times> (PipelineState \<Rightarrow> PipelineState)) list"
  edges :: "(string \<times> string) list"
  entry_point :: "string option"
  finish_point :: "string option"

definition StateGraph :: graph where
  "StateGraph = \<lparr>nodes = [], edges = [], entry_point = None, finish_point = None\<rparr>"

definition add_node :: "string \<Rightarrow> (PipelineState \<Rightarrow> PipelineState) \<Rightarrow> graph \<Rightarrow> graph" where
  "add_node n stage g = g\<lparr>nodes := nodes g @ [(n, stage)]\<rparr>"

definition add_edge :: "string \<Rightarrow> string \<Rightarrow> graph \<Rightarrow> graph" where
  "add_edge a b g = g\<lparr>edges := edges g @ [(a, b)]\<rparr>"

definition set_entry_point :: "string \<Rightarrow> graph \<Rightarrow> graph" where
  "set_entry_point n g = g\<lparr>entry_point := Some n\<rparr>"

definition set_finish_point :: "string \<Rightarrow> graph \<Rightarrow> graph" where
  "set_finish_point n g = g\<lparr>finish_point := Some n\<rparr>"

definition build_graph :: graph where
  "build_graph =
     (set_finish_point ''final''
      (add_edge ''report'' ''final''
      (add_edge ''rag_verify'' ''report''
      (add_edge ''rag_capture'' ''rag_verify''
      (add_edge ''rag_query'' ''rag_capture''
      (add_edge ''summary'' ''rag_query''
      (add_edge ''verify_metadata'' ''summary''
      (add_edge ''verify_raw'' ''verify_metadata''
      (add_edge ''metadata'' ''verify_raw''
      (add_edge ''dataset'' ''metadata''
      (set_entry_point ''dataset''
      (add_node ''final'' final_stage
      (add_node ''report'' report_stage
      (add_node ''rag_verify'' rag_verify_stage
      (add_node ''rag_capture'' rag_capture_stage
      (add_node ''rag_query'' rag_stage
      (add_node ''summary'' summary_stage
      (add_node ''verify_metadata'' verify_metadata_stage
      (add_node ''verify_raw'' verify_raw_stage
      (add_node ''metadata'' metadata_stage
      (add_node ''dataset'' dataset_stage
       StateGraph)))))))))))))))))))))"

text \<open>
  Modelled from the spec: \<^verbatim>\<open>compile().invoke\<close> belongs to the graph library. Section 4.4
  has the stages execute in the order of the graph's edges, from the entry stage to the
  finish stage, each stage receiving the state its predecessor returned. A run visits
  every node at most once; a walk that leaves the graph or does not reach the finish
  stage within that bound is a failed run (\<open>None\<close>).
\<close>

fun run_from :: "nat \<Rightarrow> graph \<Rightarrow> string \<Rightarrow> PipelineState \<Rightarrow> PipelineState option" where
  "run_from 0 g n state = None"
| "run_from (Suc fuel) g n state =
     (case map_of (nodes g) n of
        None \<Rightarrow> None
      | Some stage \<Rightarrow>
          (if finish_point g = Some n then Some (stage state)
           else (case map_of (edges g) n of
                   None \<Rightarrow> None
                 | Some n' \<Rightarrow> run_from fuel g n' (stage state))))"

definition invoke :: "graph \<Rightarrow> PipelineState \<Rightarrow> PipelineState option" where
  "invoke g state =
     (case entry_point g of
        None \<Rightarrow> None
      | Some n \<Rightarrow> run_from (length (nodes g)) g n state)"

subsection \<open>run\_langraph\_pipeline\<close>

text \<open>
  The module-level \<^verbatim>\<open>_COMPILED_GRAPH\<close> is threaded through: the function takes the
  global's value and returns the value it leaves. The result is the payload handed to
  \<^verbatim>\<open>json.dumps\<close>; a failed run of the graph is \<open>None\<close>.
\<close>

definition initial_state :: "string \<Rightarrow> json option \<Rightarrow> PipelineState" where
  "initial_state prompt_text ctx =
     \<lparr>prompt = prompt_text, artifacts = [], tools_planned = [],
      context' = (case ctx of None \<Rightarrow> JObj [] | Some c \<Rightarrow> c), step = 0\<rparr>"

definition run_langraph_pipeline ::
  "graph option \<Rightarrow> string \<Rightarrow> json option \<Rightarrow> json option \<times> graph option"
where
  "run_langraph_pipeline compiled_graph prompt_text ctx =
     (let g = (case compiled_graph of None \<Rightarrow> build_graph | Some g \<Rightarrow> g)
      in (case invoke g (initial_state prompt_text ctx) of
            None \<Rightarrow> None
          | Some result \<Rightarrow>
              Some (JObj [(''prompt'', JStr prompt_text),
                          (''artifacts'', JArr (map JStr (artifacts result))),
                          (''plan'', JArr (tools_planned result))]),
          Some g))"

section \<open>Vocabulary of the statements\<close>

text \<open>Python's \<^verbatim>\<open>sub in s\<close> on strings: \<open>sub\<close> occurs somewhere in \<open>s\<close>.\<close>

fun mentions :: "string \<Rightarrow> string \<Rightarrow> bool" where
  "mentions sub [] = (sub = [])"
| "mentions sub (c # cs) = (take (length sub) (c # cs) = sub \<or> mentions sub cs)"

text \<open>
  The reading of \<^emph>\<open>last write wins\<close> that \<open>build_trace\<close> is compared with: two values
  are the same dict key when both hash and their hashed forms are equal; an entry of
  \<^verbatim>\<open>toolResults\<close> bears a name when its \<^verbatim>\<open>toolName\<close> is the same key; the result
  for a name is the \<^verbatim>\<open>result\<close> of the last entry bearing it, and null when there is
  none.
\<close>

definition same_key :: "json \<Rightarrow> json \<Rightarrow> bool" where
  "same_key a b = (case (py_key a, py_key b) of (Inr x, Inr y) \<Rightarrow> x = y | _ \<Rightarrow> False)"

definition bears_name :: "json \<Rightarrow> json \<Rightarrow> bool" where
  "bears_name nm result =
     (case dict_get result ''toolName'' JNull of Inl e \<Rightarrow> False | Inr v \<Rightarrow> same_key v nm)"

definition entry_result :: "json \<Rightarrow> json" where
  "entry_result result =
     (case dict_get result ''result'' JNull of Inl e \<Rightarrow> JNull | Inr v \<Rightarrow> v)"

definition last_result_for :: "json \<Rightarrow> json list \<Rightarrow> json" where
  "last_result_for nm results =
     (case filter (bears_name nm) results of
        [] \<Rightarrow> JNull
      | r # rs \<Rightarrow> entry_result (last (r # rs)))"

section \<open>The Tool-Selection Scorer\<close>

lemma no_catalogue:
  "available = None \<or> available = Some [] \<Longrightarrow>
   compute_selection_score em expected called available =
     \<lparr>score = 1,
      reason = ''No available tools catalogue provided; assuming selection is valid.''\<rparr>"
  by (auto simp: compute_selection_score_def)

lemma unknown_called:
  assumes "available \<noteq> []"
    and "\<exists>t \<in> set called. name t \<notin> set (map name available)"
  shows "compute_selection_score em expected called (Some available) =
     \<lparr>score = 0,
      reason = ''Agent invoked unsupported tools: '' @
        join '', '' (sorted_list_of_set
          {n \<in> set (map name called). n \<notin> set (map name available)}) @ ''.''\<rparr>"
proof -
  let ?U = "{n \<in> set (map name called). n \<notin> set (map name available)}"
  have fin: "finite ?U" by simp
  from assms(2) have "?U \<noteq> {}" by auto
  with fin have ne: "sorted_list_of_set ?U \<noteq> []" by simp
  have eq: "set (filter (\<lambda>n. n \<notin> set (map name available)) (map name called)) = ?U"
    by auto
  show ?thesis
    unfolding compute_selection_score_def Let_def option.sel eq
    using assms(1) ne by simp
qed

lemma all_called_known:
  assumes "available \<noteq> []" and "set (map name called) \<subseteq> set (map name available)"
  shows "compute_selection_score em expected called (Some available) =
     (case (if em \<and> expected \<noteq> None
            then exact_match_check (the expected) (map name called) else None) of
        Some mismatch \<Rightarrow> mismatch
      | None \<Rightarrow> \<lparr>score = 1, reason = ''Tool selection matches expectation.''\<rparr>)"
proof -
  have "filter (\<lambda>n. n \<notin> set (map name available)) (map name called) = []"
    using assms(2) by (auto simp: filter_empty_conv)
  then show ?thesis
    unfolding compute_selection_score_def Let_def option.sel
    using assms(1) by simp
qed

lemma exact_match_check_None:
  "exact_match_check expected called_names = None
   \<longleftrightarrow> set called_names = set (map name expected)"
  by (auto simp: exact_match_check_def Let_def)

lemma exact_match_check_Some:
  "exact_match_check expected called_names = Some r \<Longrightarrow> score r = 0"
  by (auto simp: exact_match_check_def Let_def split: if_splits)

text \<open>
  C2, as the code has it. With exact matching on and an expected set attached: when the
  called names and the expected names are equal as sets, the score is 1.0 provided no
  catalogue is supplied or every called name is in the catalogue (order and repetition
  of the calls play no part); when a non-empty catalogue is supplied and the two sets
  differ, the score is 0.0, in particular for no calls at all against a non-empty
  expectation.
\<close>

theorem exact_match_on_known_tools:
  "((available = None \<or> available = Some []
       \<or> set (map name called) \<subseteq> set (map name (the available)))
      \<and> set (map name called) = set (map name expected)
     \<longrightarrow> score (compute_selection_score True (Some expected) called available) = 1)
   \<and> (available \<noteq> None \<and> available \<noteq> Some []
      \<and> (set (map name expected) - set (map name called) \<noteq> {}
          \<or> set (map name called) - set (map name expected) \<noteq> {})
     \<longrightarrow> score (compute_selection_score True (Some expected) called available) = 0)
   \<and> (available \<noteq> None \<and> available \<noteq> Some [] \<and> expected \<noteq> []
     \<longrightarrow> score (compute_selection_score True (Some expected) [] available) = 0)"
proof (intro conjI impI)
  assume a: "(available = None \<or> available = Some []
       \<or> set (map name called) \<subseteq> set (map name (the available)))
      \<and> set (map name called) = set (map name expected)"
  show "score (compute_selection_score True (Some expected) called available) = 1"
  proof (cases "available = None \<or> available = Some []")
    case True
    then show ?thesis by (simp add: no_catalogue)
  next
    case False
    then obtain av where av: "available = Some av" "av \<noteq> []" by auto
    with a have sub: "set (map name called) \<subseteq> set (map name av)" by auto
    from a have "exact_match_check expected (map name called) = None"
      by (simp add: exact_match_check_None)
    then show ?thesis by (simp add: av all_called_known [OF av(2) sub])
  qed
next
  assume a: "available \<noteq> None \<and> available \<noteq> Some []
      \<and> (set (map name expected) - set (map name called) \<noteq> {}
          \<or> set (map name called) - set (map name expected) \<noteq> {})"
  then obtain av where av: "available = Some av" "av \<noteq> []" by auto
  from a have ne: "set (map name called) \<noteq> set (map name expected)" by auto
  show "score (compute_selection_score True (Some expected) called available) = 0"
  proof (cases "set (map name called) \<subseteq> set (map name av)")
    case True
    from ne obtain r where r: "exact_match_check expected (map name called) = Some r"
      using exact_match_check_None [of expected "map name called"]
      by (cases "exact_match_check expected (map name called)") auto
    then show ?thesis
      by (simp add: av all_called_known [OF av(2) True] exact_match_check_Some [OF r])
  next
    case False
    then have "\<exists>t \<in> set called. name t \<notin> set (map name av)" by auto
    then show ?thesis by (simp add: av unknown_called [OF av(2)])
  qed
next
  assume a: "available \<noteq> None \<and> available \<noteq> Some [] \<and> expected \<noteq> []"
  then obtain av where av: "available = Some av" "av \<noteq> []" by auto
  have sub: "set (map name ([]::ToolCall list)) \<subseteq> set (map name av)" by simp
  from a have "exact_match_check expected (map name ([]::ToolCall list)) \<noteq> None"
    by (simp add: exact_match_check_None)
  then obtain r where r: "exact_match_check expected (map name ([]::ToolCall list)) = Some r"
    by auto
  show "score (compute_selection_score True (Some expected) [] available) = 0"
    using r exact_match_check_Some [OF r] by (simp add: av all_called_known [OF av(2) sub])
qed

text \<open>
  The theorem at the runner's catalogue: \<^verbatim>\<open>math\<close> called twice against the expectation
  \<^verbatim>\<open>[math]\<close> scores 1.0; \<^verbatim>\<open>filesystem\<close> called where \<^verbatim>\<open>math\<close> is expected, and no
  call at all, score 0.0.
\<close>

theorem exact_match_on_known_tools_witness:
  "score (compute_selection_score True (Some [\<lparr>name = ''math'', parameters = JObj []\<rparr>])
            [\<lparr>name = ''math'', parameters = JObj []\<rparr>,
             \<lparr>name = ''math'', parameters = JObj [(''a'', JInt 15)]\<rparr>]
            (Some available_tools)) = 1
   \<and> score (compute_selection_score True (Some [\<lparr>name = ''math'', parameters = JObj []\<rparr>])
            [\<lparr>name = ''filesystem'', parameters = JObj []\<rparr>]
            (Some available_tools)) = 0
   \<and> score (compute_selection_score True (Some [\<lparr>name = ''math'', parameters = JObj []\<rparr>])
            [] (Some available_tools)) = 0"
  using
    exact_match_on_known_tools [of "Some available_tools"
      "[\<lparr>name = ''math'', parameters = JObj []\<rparr>,
        \<lparr>name = ''math'', parameters = JObj [(''a'', JInt 15)]\<rparr>]"
      "[\<lparr>name = ''math'', parameters = JObj []\<rparr>]"]
    exact_match_on_known_tools [of "Some available_tools"
      "[\<lparr>name = ''filesystem'', parameters = JObj []\<rparr>]"
      "[\<lparr>name = ''math'', parameters = JObj []\<rparr>]"]
  by (simp add: available_tools_def)

text \<open>
  C2 as stated fails twice. The catalogue \<^verbatim>\<open>[math]\<close>, the call \<^verbatim>\<open>web\<close> and the
  expectation \<^verbatim>\<open>[web]\<close> agree as sets, and the score is 0.0, since the unknown-tool check
  comes first. With the empty catalogue, no call and the expectation \<^verbatim>\<open>[math]\<close>, the
  expected name is missing, and the score is 1.0.
\<close>

theorem set_equality_counterexample:
  "set (map name [\<lparr>name = ''web'', parameters = JObj []\<rparr>])
     = set (map name [\<lparr>name = ''web'', parameters = JObj []\<rparr>])
   \<and> score (compute_selection_score True (Some [\<lparr>name = ''web'', parameters = JObj []\<rparr>])
        [\<lparr>name = ''web'', parameters = JObj []\<rparr>]
        (Some [\<lparr>name = ''math'', parameters = JObj []\<rparr>])) = 0
   \<and> set (map name [\<lparr>name = ''math'', parameters = JObj []\<rparr>]) - set (map name []) \<noteq> {}
   \<and> score (compute_selection_score True (Some [\<lparr>name = ''math'', parameters = JObj []\<rparr>])
        [] (Some [])) = 1"
  by (simp add: compute_selection_score_def)

text \<open>
  C3. For a non-empty catalogue and calls of which at least one names a tool outside
  it, the score is 0.0 and the reason lists exactly the unknown names, sorted and without
  repetition, whatever the exact-match flag and the expected tools are.
\<close>

theorem unknown_tools_score_zero:
  assumes "available \<noteq> []"
    and "\<exists>t \<in> set called. name t \<notin> set (map name available)"
  shows "let unknown = sorted_list_of_set
                         {n \<in> set (map name called). n \<notin> set (map name available)}
         in compute_selection_score em expected called (Some available) =
              \<lparr>score = 0,
               reason = ''Agent invoked unsupported tools: '' @ join '', '' unknown @ ''.''\<rparr>
            \<and> sorted unknown \<and> distinct unknown
            \<and> set unknown = {n \<in> set (map name called). n \<notin> set (map name available)}"
  using unknown_called [OF assms] by (simp add: Let_def)

text \<open>
  The theorem at the runner's catalogue, for the calls \<^verbatim>\<open>math, web, abc, web\<close>: the
  reason names \<^verbatim>\<open>abc, web\<close>.
\<close>

theorem unknown_tools_score_zero_witness:
  "available_tools \<noteq> []
   \<and> (\<exists>t \<in> set [\<lparr>name = ''math'', parameters = JObj []\<rparr>,
                  \<lparr>name = ''web'', parameters = JObj []\<rparr>,
                  \<lparr>name = ''abc'', parameters = JObj []\<rparr>,
                  \<lparr>name = ''web'', parameters = JObj []\<rparr>].
         name t \<notin> set (map name available_tools))
   \<and> compute_selection_score True (Some [\<lparr>name = ''math'', parameters = JObj []\<rparr>])
        [\<lparr>name = ''math'', parameters = JObj []\<rparr>,
         \<lparr>name = ''web'', parameters = JObj []\<rparr>,
         \<lparr>name = ''abc'', parameters = JObj []\<rparr>,
         \<lparr>name = ''web'', parameters = JObj []\<rparr>]
        (Some available_tools) =
      \<lparr>score = 0, reason = ''Agent invoked unsupported tools: abc, web.''\<rparr>"
proof -
  let ?called = "[\<lparr>name = ''math'', parameters = JObj []\<rparr>,
                  \<lparr>name = ''web'', parameters = JObj []\<rparr>,
                  \<lparr>name = ''abc'', parameters = JObj []\<rparr>,
                  \<lparr>name = ''web'', parameters = JObj []\<rparr>]"
  have h1: "available_tools \<noteq> []" by (simp add: available_tools_def)
  have h2: "\<exists>t \<in> set ?called. name t \<notin> set (map name available_tools)"
    by (simp add: available_tools_def)
  have "{n \<in> set (map name ?called). n \<notin> set (map name available_tools)} = {''web'', ''abc''}"
    by (auto simp: available_tools_def)
  moreover have "sorted_list_of_set {''web'', ''abc''} = [''abc'', ''web'']"
    by code_simp
  ultimately have u:
    "sorted_list_of_set {n \<in> set (map name ?called). n \<notin> set (map name available_tools)}
       = [''abc'', ''web'']"
    by simp
  from unknown_tools_score_zero [OF h1 h2, of True
         "Some [\<lparr>name = ''math'', parameters = JObj []\<rparr>]"]
  show ?thesis using h1 h2 unfolding Let_def u by simp
qed

text \<open>
  C4. Without a catalogue (none at all, or an empty one) the score is 1.0 and the
  reason says that the selection is assumed valid, whatever was called.
\<close>

theorem no_catalogue_scores_one:
  "available = None \<or> available = Some [] \<Longrightarrow>
   compute_selection_score em expected called available =
     \<lparr>score = 1,
      reason = ''No available tools catalogue provided; assuming selection is valid.''\<rparr>"
  by (rule no_catalogue)

theorem no_catalogue_scores_one_witness:
  "compute_selection_score True (Some [\<lparr>name = ''math'', parameters = JObj []\<rparr>])
       [\<lparr>name = ''web'', parameters = JObj []\<rparr>] None =
     \<lparr>score = 1,
      reason = ''No available tools catalogue provided; assuming selection is valid.''\<rparr>
   \<and> compute_selection_score True (Some [\<lparr>name = ''math'', parameters = JObj []\<rparr>])
       [\<lparr>name = ''web'', parameters = JObj []\<rparr>] (Some []) =
     \<lparr>score = 1,
      reason = ''No available tools catalogue provided; assuming selection is valid.''\<rparr>"
  using
    no_catalogue_scores_one [of None True "Some [\<lparr>name = ''math'', parameters = JObj []\<rparr>]"
      "[\<lparr>name = ''web'', parameters = JObj []\<rparr>]"]
    no_catalogue_scores_one [of "Some []" True
      "Some [\<lparr>name = ''math'', parameters = JObj []\<rparr>]"
      "[\<lparr>name = ''web'', parameters = JObj []\<rparr>]"]
  by simp

section \<open>The Step-Efficiency Scorer\<close>

lemma strs_of_strings: "strs_of (map JStr xs) = Inr xs"
  by (induction xs) auto

lemma extra_of_strings:
  "filter (\<lambda>v. v \<notin> set (map JStr expected)) (map JStr observed) =
   map JStr (filter (\<lambda>n. n \<notin> set expected) observed)"
  by (induction observed) auto

lemma deviation_strings:
  "\<exists>r. deviation expected (map JStr observed) = Inr r \<and> score r = 0"
  unfolding deviation_def Let_def extra_of_strings extra_details_def str_join_def
    strs_of_strings
  by simp

text \<open>
  On a trace whose children all carry string names the scorer returns, with 1.0 exactly
  for the expected sequence and 0.0 for every other one.
\<close>

lemma score_trace_strings:
  assumes "tool_sequence trace = Inr (map JStr observed)"
  shows "\<exists>r. score_trace expected trace = Inr r
             \<and> score r = (if observed = expected then 1 else 0)"
proof (cases "observed = expected")
  case True
  with assms show ?thesis by (simp add: score_trace_def)
next
  case False
  then have "map JStr observed \<noteq> map JStr expected"
    by (simp add: inj_map_eq_map inj_on_def)
  with assms False deviation_strings [of expected observed] show ?thesis
    by (auto simp: score_trace_def)
qed

lemma deviation_score: "deviation expected observed = Inr r \<Longrightarrow> score r = 0"
  by (auto simp: deviation_def Let_def split: sum.splits)

text \<open>Whenever the scorer returns, the score tells whether the sequences are equal.\<close>

lemma score_trace_returned:
  assumes "score_trace expected trace = Inr r"
  shows "(score r = 1 \<longleftrightarrow> tool_sequence trace = Inr (map JStr expected))
       \<and> (score r = 0 \<longleftrightarrow> tool_sequence trace \<noteq> Inr (map JStr expected))"
  using assms
  by (auto simp: score_trace_def split: sum.splits if_splits dest: deviation_score)

lemma duplicate_filesystem:
  "score_trace [''filesystem'']
     (JObj [(''children'', JArr [JObj [(''name'', JStr ''filesystem'')],
                                  JObj [(''name'', JStr ''filesystem'')]])]) =
   Inr \<lparr>score = 0,
        reason = ''Trace deviated from expected sequence: tool order differed from expectation.''\<rparr>"
  by (simp add: score_trace_def tool_sequence_def deviation_def extra_details_def)

lemma order_reason_has_no_extra:
  "\<not> mentions ''extra''
       ''Trace deviated from expected sequence: tool order differed from expectation.''"
  by simp

text \<open>
  C5, as the code has it. For the expected sequence \<^verbatim>\<open>[filesystem]\<close> and the observed
  sequence \<^verbatim>\<open>[filesystem, filesystem]\<close> the score is 0.0; no observed name is outside
  the expected sequence, so the list of extra names is empty and the reason is the one
  for a differing order.
\<close>

theorem duplicate_call_reported_as_order:
  "tool_sequence
     (JObj [(''children'', JArr [JObj [(''name'', JStr ''filesystem'')],
                                  JObj [(''name'', JStr ''filesystem'')]])])
     = Inr [JStr ''filesystem'', JStr ''filesystem'']
   \<and> filter (\<lambda>v. v \<notin> set (map JStr [''filesystem'']))
        [JStr ''filesystem'', JStr ''filesystem''] = []
   \<and> score_trace [''filesystem'']
       (JObj [(''children'', JArr [JObj [(''name'', JStr ''filesystem'')],
                                    JObj [(''name'', JStr ''filesystem'')]])]) =
     Inr \<lparr>score = 0,
          reason = ''Trace deviated from expected sequence: tool order differed from expectation.''\<rparr>"
  by (simp add: duplicate_filesystem) (simp add: tool_sequence_def)

text \<open>
  C5 as stated fails: on that input no returned score has a reason that mentions an
  extra tool.
\<close>

theorem extra_filesystem_counterexample:
  "\<not> (\<exists>r. score_trace [''filesystem'']
            (JObj [(''children'', JArr [JObj [(''name'', JStr ''filesystem'')],
                                         JObj [(''name'', JStr ''filesystem'')]])]) = Inr r
          \<and> score r = 0 \<and> mentions ''extra'' (reason r))"
  unfolding duplicate_filesystem using order_reason_has_no_extra by auto

section \<open>The workflow: what each stage appends, and the full run\<close>

lemmas stage_unfold = append_tool_def add_artifact_def as_posix_def Let_def

lemma dataset_stage_effect:
  "dataset_stage state = state\<lparr>
     tools_planned := tools_planned state @
       [JObj [(''tool'', JStr ''filesystem''),
              (''parameters'', JObj [(''action'', JStr ''write''),
                                     (''path'', JStr ''tmp_pipeline_raw.txt''),
                                     (''content'', JStr ''dataset=12,7,23'')])]],
     artifacts := artifacts state @ [''raw dataset written to tmp_pipeline_raw.txt''],
     step := step state + 1\<rparr>"
  by (simp add: dataset_stage_def stage_unfold)

lemma metadata_stage_effect:
  "metadata_stage state = state\<lparr>
     tools_planned := tools_planned state @
       [JObj [(''tool'', JStr ''filesystem''),
              (''parameters'', JObj [(''action'', JStr ''write''),
                                     (''path'', JStr ''tmp_pipeline_metadata.json''),
                                     (''content'',
                                      JStr ''{\"source\": \"synthetic\", \"fields\": 3}'')])]],
     artifacts := artifacts state @ [''metadata stored at tmp_pipeline_metadata.json''],
     step := step state + 1\<rparr>"
  by (simp add: metadata_stage_def stage_unfold)

lemma verify_raw_stage_effect:
  "verify_raw_stage state = state\<lparr>
     tools_planned := tools_planned state @
       [JObj [(''tool'', JStr ''filesystem''),
              (''parameters'', JObj [(''action'', JStr ''read''),
                                     (''path'', JStr ''tmp_pipeline_raw.txt'')])]],
     artifacts := artifacts state @ [''raw dataset verified from tmp_pipeline_raw.txt''],
     step := step state + 1\<rparr>"
  by (simp add: verify_raw_stage_def stage_unfold)

lemma verify_metadata_stage_effect:
  "verify_metadata_stage state = state\<lparr>
     tools_planned := tools_planned state @
       [JObj [(''tool'', JStr ''filesystem''),
              (''parameters'', JObj [(''action'', JStr ''read''),
                                     (''path'', JStr ''tmp_pipeline_metadata.json'')])]],
     artifacts := artifacts state @ [''metadata verified from tmp_pipeline_metadata.json''],
     step := step state + 1\<rparr>"
  by (simp add: verify_metadata_stage_def stage_unfold)

lemma summary_stage_effect:
  "summary_stage state = state\<lparr>
     tools_planned := tools_planned state @
       [JObj [(''tool'', JStr ''filesystem''),
              (''parameters'', JObj [(''action'', JStr ''write''),
                                     (''path'', JStr ''tmp_pipeline_summary.txt''),
                                     (''content'',
                                      JStr ''Summary: collected 3 synthetic observations.'')])]],
     artifacts := artifacts state @ [''summary stored at tmp_pipeline_summary.txt''],
     step := step state + 1\<rparr>"
  by (simp add: summary_stage_def stage_unfold)

lemma rag_stage_effect:
  "rag_stage state = state\<lparr>
     tools_planned := tools_planned state @
       [JObj [(''tool'', JStr ''rag''),
              (''parameters'',
               JObj [(''query'', JStr ''evaluation playbooks and best practices'')])]],
     artifacts := artifacts state @ [''rag query executed for evaluation playbooks''],
     step := step state + 1\<rparr>"
  by (simp add: rag_stage_def stage_unfold)

lemma rag_capture_stage_effect:
  "rag_capture_stage state = state\<lparr>
     tools_planned := tools_planned state @
       [JObj [(''tool'', JStr ''filesystem''),
              (''parameters'', JObj [(''action'', JStr ''write''),
                                     (''path'', JStr ''tmp_pipeline_rag.txt''),
                                     (''content'', JStr
                                        ''RAG insights: Follow the evaluation playbook to validate every artifact.'')])]],
     artifacts := artifacts state @ [''rag insights captured at tmp_pipeline_rag.txt''],
     step := step state + 1\<rparr>"
  by (simp add: rag_capture_stage_def stage_unfold)

lemma rag_verify_stage_effect:
  "rag_verify_stage state = state\<lparr>
     tools_planned := tools_planned state @
       [JObj [(''tool'', JStr ''filesystem''),
              (''parameters'', JObj [(''action'', JStr ''read''),
                                     (''path'', JStr ''tmp_pipeline_rag.txt'')])]],
     artifacts := artifacts state @ [''rag insights verified from tmp_pipeline_rag.txt''],
     step := step state + 1\<rparr>"
  by (simp add: rag_verify_stage_def stage_unfold)

lemma report_stage_effect:
  "report_stage state = state\<lparr>
     tools_planned := tools_planned state @
       [JObj [(''tool'', JStr ''filesystem''),
              (''parameters'', JObj [(''action'', JStr ''write''),
                                     (''path'', JStr ''tmp_pipeline_report.md''),
                                     (''content'', JStr
                                        ''# Evaluation Report\<newline>\<newline>- Raw data stored\<newline>- Metadata verified\<newline>- RAG insights appended'')])]],
     artifacts := artifacts state @ [''report drafted at tmp_pipeline_report.md''],
     step := step state + 1\<rparr>"
  by (simp add: report_stage_def stage_unfold)

lemma final_stage_effect:
  "final_stage state = state\<lparr>
     tools_planned := tools_planned state @
       [JObj [(''tool'', JStr ''filesystem''),
              (''parameters'', JObj [(''action'', JStr ''list''), (''path'', JStr ''.'')])]],
     artifacts := artifacts state @ [''workspace inventory captured''],
     step := step state + 1\<rparr>"
  by (simp add: final_stage_def stage_unfold)

lemmas stage_effects =
  dataset_stage_effect metadata_stage_effect verify_raw_stage_effect
  verify_metadata_stage_effect summary_stage_effect rag_stage_effect
  rag_capture_stage_effect rag_verify_stage_effect report_stage_effect final_stage_effect

lemma appends_one:
  assumes "\<And>state. stage state =
             state\<lparr>tools_planned := tools_planned state @ [call],
                   artifacts := artifacts state @ [artifact],
                   step := step state + 1\<rparr>"
  shows "\<exists>call artifact. \<forall>state.
           tools_planned (stage state) = tools_planned state @ [call]
         \<and> artifacts (stage state) = artifacts state @ [artifact]
         \<and> step (stage state) = step state + 1
         \<and> prompt (stage state) = prompt state
         \<and> context' (stage state) = context' state"
  by (intro exI [of _ call] exI [of _ artifact]) (simp add: assms)

lemmas graph_unfold =
  build_graph_def add_node_def add_edge_def set_entry_point_def set_finish_point_def
  StateGraph_def

lemma nodes_build_graph:
  "map snd (nodes build_graph) =
     [dataset_stage, metadata_stage, verify_raw_stage, verify_metadata_stage, summary_stage,
      rag_stage, rag_capture_stage, rag_verify_stage, report_stage, final_stage]"
  by (simp add: graph_unfold)

text \<open>The compiled graph runs the ten stages in the order of its edges.\<close>

lemma invoke_build_graph:
  "invoke build_graph state =
     Some (final_stage (report_stage (rag_verify_stage (rag_capture_stage (rag_stage
       (summary_stage (verify_metadata_stage (verify_raw_stage (metadata_stage
         (dataset_stage state))))))))))"
  by (simp add: invoke_def graph_unfold numeral_eq_Suc)

lemma full_run:
  "invoke build_graph (initial_state p ctx) =
     Some \<lparr>prompt = p,
           artifacts =
             [''raw dataset written to tmp_pipeline_raw.txt'',
              ''metadata stored at tmp_pipeline_metadata.json'',
              ''raw dataset verified from tmp_pipeline_raw.txt'',
              ''metadata verified from tmp_pipeline_metadata.json'',
              ''summary stored at tmp_pipeline_summary.txt'',
              ''rag query executed for evaluation playbooks'',
              ''rag insights captured at tmp_pipeline_rag.txt'',
              ''rag insights verified from tmp_pipeline_rag.txt'',
              ''report drafted at tmp_pipeline_report.md'',
              ''workspace inventory captured''],
           tools_planned =
             [JObj [(''tool'', JStr ''filesystem''),
                    (''parameters'', JObj [(''action'', JStr ''write''),
                                           (''path'', JStr ''tmp_pipeline_raw.txt''),
                                           (''content'', JStr ''dataset=12,7,23'')])],
              JObj [(''tool'', JStr ''filesystem''),
                    (''parameters'', JObj [(''action'', JStr ''write''),
                                           (''path'', JStr ''tmp_pipeline_metadata.json''),
                                           (''content'',
                                            JStr ''{\"source\": \"synthetic\", \"fields\": 3}'')])],
              JObj [(''tool'', JStr ''filesystem''),
                    (''parameters'', JObj [(''action'', JStr ''read''),
                                           (''path'', JStr ''tmp_pipeline_raw.txt'')])],
              JObj [(''tool'', JStr ''filesystem''),
                    (''parameters'', JObj [(''action'', JStr ''read''),
                                           (''path'', JStr ''tmp_pipeline_metadata.json'')])],
              JObj [(''tool'', JStr ''filesystem''),
                    (''parameters'', JObj [(''action'', JStr ''write''),
                                           (''path'', JStr ''tmp_pipeline_summary.txt''),
                                           (''content'',
                                            JStr ''Summary: collected 3 synthetic observations.'')])],
              JObj [(''tool'', JStr ''rag''),
                    (''parameters'',
                     JObj [(''query'', JStr ''evaluation playbooks and best practices'')])],
              JObj [(''tool'', JStr ''filesystem''),
                    (''parameters'', JObj [(''action'', JStr ''write''),
                                           (''path'', JStr ''tmp_pipeline_rag.txt''),
                                           (''content'', JStr
                                              ''RAG insights: Follow the evaluation playbook to validate every artifact.'')])],
              JObj [(''tool'', JStr ''filesystem''),
                    (''parameters'', JObj [(''action'', JStr ''read''),
                                           (''path'', JStr ''tmp_pipeline_rag.txt'')])],
              JObj [(''tool'', JStr ''filesystem''),
                    (''parameters'', JObj [(''action'', JStr ''write''),
                                           (''path'', JStr ''tmp_pipeline_report.md''),
                                           (''content'', JStr
                                              ''# Evaluation Report\<newline>\<newline>- Raw data stored\<newline>- Metadata verified\<newline>- RAG insights appended'')])],
              JObj [(''tool'', JStr ''filesystem''),
                    (''parameters'', JObj [(''action'', JStr ''list''),
                                           (''path'', JStr ''.'')])]],
           context' = (case ctx of None \<Rightarrow> JObj [] | Some c \<Rightarrow> c),
           step = 10\<rparr>"
  by (simp add: invoke_build_graph stage_effects initial_state_def)

text \<open>Every run leaves the compiled graph in the module-level variable.\<close>

lemma cache_after_first_run: "snd (run_langraph_pipeline None p ctx) = Some build_graph"
  by (simp add: run_langraph_pipeline_def Let_def)

lemma cache_after_later_run:
  "snd (run_langraph_pipeline (Some build_graph) p ctx) = Some build_graph"
  by (simp add: run_langraph_pipeline_def Let_def)

lemma run_cached_same:
  "fst (run_langraph_pipeline (Some build_graph) p ctx) = fst (run_langraph_pipeline None p ctx)"
  by (simp add: run_langraph_pipeline_def Let_def)

lemma run_returns: "\<exists>payload. fst (run_langraph_pipeline None p ctx) = Some payload"
  by (simp add: run_langraph_pipeline_def Let_def full_run)

lemma run_payload:
  "\<exists>arts plan. \<forall>p ctx.
     fst (run_langraph_pipeline None p ctx) =
       Some (JObj [(''prompt'', JStr p), (''artifacts'', arts), (''plan'', plan)])"
  by (intro exI allI) (simp add: run_langraph_pipeline_def Let_def full_run)

text \<open>
  C7. Each of the ten stage functions registered in the graph, applied to any state,
  appends exactly one tool call to \<open>tools_planned\<close> and one description to \<open>artifacts\<close>,
  adds one to \<open>step\<close>, and leaves \<open>prompt\<close>, the context and the earlier entries as they
  were. A full run from a fresh state therefore ends with \<open>step = 10\<close> and with ten
  artifacts and ten planned calls, in the order in which the stages ran.
\<close>

theorem stages_append_one_and_run_counts_ten:
  "(\<forall>stage \<in> set (map snd (nodes build_graph)). \<exists>call artifact. \<forall>state.
        tools_planned (stage state) = tools_planned state @ [call]
      \<and> artifacts (stage state) = artifacts state @ [artifact]
      \<and> step (stage state) = step state + 1
      \<and> prompt (stage state) = prompt state
      \<and> context' (stage state) = context' state)
   \<and> (\<exists>final. invoke build_graph (initial_state p ctx) = Some final
        \<and> step final = 10
        \<and> length (artifacts final) = 10
        \<and> length (tools_planned final) = 10
        \<and> prompt final = p
        \<and> artifacts final =
             [''raw dataset written to tmp_pipeline_raw.txt'',
              ''metadata stored at tmp_pipeline_metadata.json'',
              ''raw dataset verified from tmp_pipeline_raw.txt'',
              ''metadata verified from tmp_pipeline_metadata.json'',
              ''summary stored at tmp_pipeline_summary.txt'',
              ''rag query executed for evaluation playbooks'',
              ''rag insights captured at tmp_pipeline_rag.txt'',
              ''rag insights verified from tmp_pipeline_rag.txt'',
              ''report drafted at tmp_pipeline_report.md'',
              ''workspace inventory captured'']
        \<and> tools_planned final =
             map (\<lambda>stage. last (tools_planned (stage (initial_state p ctx))))
               (map snd (nodes build_graph)))"
proof (intro conjI ballI)
  fix stage
  assume "stage \<in> set (map snd (nodes build_graph))"
  then consider "stage = dataset_stage" | "stage = metadata_stage"
    | "stage = verify_raw_stage" | "stage = verify_metadata_stage"
    | "stage = summary_stage" | "stage = rag_stage" | "stage = rag_capture_stage"
    | "stage = rag_verify_stage" | "stage = report_stage" | "stage = final_stage"
    unfolding nodes_build_graph by auto
  then show "\<exists>call artifact. \<forall>state.
        tools_planned (stage state) = tools_planned state @ [call]
      \<and> artifacts (stage state) = artifacts state @ [artifact]
      \<and> step (stage state) = step state + 1
      \<and> prompt (stage state) = prompt state
      \<and> context' (stage state) = context' state"
  proof cases
    case 1 then show ?thesis using appends_one [OF dataset_stage_effect] by simp
  next
    case 2 then show ?thesis using appends_one [OF metadata_stage_effect] by simp
  next
    case 3 then show ?thesis using appends_one [OF verify_raw_stage_effect] by simp
  next
    case 4 then show ?thesis using appends_one [OF verify_metadata_stage_effect] by simp
  next
    case 5 then show ?thesis using appends_one [OF summary_stage_effect] by simp
  next
    case 6 then show ?thesis using appends_one [OF rag_stage_effect] by simp
  next
    case 7 then show ?thesis using appends_one [OF rag_capture_stage_effect] by simp
  next
    case 8 then show ?thesis using appends_one [OF rag_verify_stage_effect] by simp
  next
    case 9 then show ?thesis using appends_one [OF report_stage_effect] by simp
  next
    case 10 then show ?thesis using appends_one [OF final_stage_effect] by simp
  qed
next
  show "\<exists>final. invoke build_graph (initial_state p ctx) = Some final
        \<and> step final = 10
        \<and> length (artifacts final) = 10
        \<and> length (tools_planned final) = 10
        \<and> prompt final = p
        \<and> artifacts final =
             [''raw dataset written to tmp_pipeline_raw.txt'',
              ''metadata stored at tmp_pipeline_metadata.json'',
              ''raw dataset verified from tmp_pipeline_raw.txt'',
              ''metadata verified from tmp_pipeline_metadata.json'',
              ''summary stored at tmp_pipeline_summary.txt'',
              ''rag query executed for evaluation playbooks'',
              ''rag insights captured at tmp_pipeline_rag.txt'',
              ''rag insights verified from tmp_pipeline_rag.txt'',
              ''report drafted at tmp_pipeline_report.md'',
              ''workspace inventory captured'']
        \<and> tools_planned final =
             map (\<lambda>stage. last (tools_planned (stage (initial_state p ctx))))
               (map snd (nodes build_graph))"
    unfolding full_run nodes_build_graph
    by (simp add: stage_effects initial_state_def)
qed

theorem stages_append_one_and_run_counts_ten_witness:
  "rag_stage \<in> set (map snd (nodes build_graph))
   \<and> (\<exists>call artifact. \<forall>state.
        tools_planned (rag_stage state) = tools_planned state @ [call]
      \<and> artifacts (rag_stage state) = artifacts state @ [artifact]
      \<and> step (rag_stage state) = step state + 1
      \<and> prompt (rag_stage state) = prompt state
      \<and> context' (rag_stage state) = context' state)
   \<and> (\<exists>final. invoke build_graph (initial_state ''List the files'' None) = Some final
        \<and> step final = 10 \<and> length (artifacts final) = 10
        \<and> length (tools_planned final) = 10)"
proof -
  have member: "rag_stage \<in> set (map snd (nodes build_graph))"
    by (simp add: nodes_build_graph)
  note c7 = stages_append_one_and_run_counts_ten [of "''List the files''" None]
  from c7 member have "\<exists>call artifact. \<forall>state.
        tools_planned (rag_stage state) = tools_planned state @ [call]
      \<and> artifacts (rag_stage state) = artifacts state @ [artifact]
      \<and> step (rag_stage state) = step state + 1
      \<and> prompt (rag_stage state) = prompt state
      \<and> context' (rag_stage state) = context' state"
    by blast
  moreover from c7 have "\<exists>final. invoke build_graph (initial_state ''List the files'' None) = Some final
        \<and> step final = 10 \<and> length (artifacts final) = 10
        \<and> length (tools_planned final) = 10"
    by blast
  ultimately show ?thesis using member by blast
qed

text \<open>
  C8. Two runs of the pipeline on the same prompt and context return the same payload,
  hence the same artifacts and the same plan: the first run of a process builds the graph
  and stores it, the second run reuses the stored graph, and so does any run that follows
  an earlier run on other inputs. Each of the runs returns a payload.
\<close>

theorem same_input_same_payload:
  "(let (earlier, g0) = run_langraph_pipeline None p0 ctx0;
        (first, g1) = run_langraph_pipeline None p ctx;
        (second, g2) = run_langraph_pipeline g1 p ctx;
        (third, g3) = run_langraph_pipeline g0 p ctx
    in (\<exists>payload. first = Some payload) \<and> second = first \<and> third = first)"
proof -
  obtain first0 where first0: "fst (run_langraph_pipeline None p ctx) = Some first0"
    using run_returns by blast
  obtain earlier0 where earlier0: "fst (run_langraph_pipeline None p0 ctx0) = earlier0"
    by simp
  have fresh: "run_langraph_pipeline None p ctx = (Some first0, Some build_graph)"
    using cache_after_first_run [of p ctx] first0 by (metis prod.collapse)
  have earlier: "run_langraph_pipeline None p0 ctx0 = (earlier0, Some build_graph)"
    using cache_after_first_run [of p0 ctx0] earlier0 by (metis prod.collapse)
  have cached: "run_langraph_pipeline (Some build_graph) p ctx = (Some first0, Some build_graph)"
    using cache_after_later_run [of p ctx] run_cached_same [of p ctx] first0
    by (metis prod.collapse)
  show ?thesis
    by (simp add: fresh earlier cached)
qed

text \<open>
  C10. The artifacts and the plan are constants: whatever the prompts and contexts of two
  invocations, the first of a process and the one after it, both payloads carry the same
  artifacts list and the same plan list, and differ only in the echoed prompt.
\<close>

theorem plan_and_artifacts_are_constants:
  "\<exists>arts plan. \<forall>p1 ctx1 p2 ctx2.
     (let (first, g1) = run_langraph_pipeline None p1 ctx1;
          (second, g2) = run_langraph_pipeline g1 p2 ctx2
      in first = Some (JObj [(''prompt'', JStr p1), (''artifacts'', arts), (''plan'', plan)])
       \<and> second = Some (JObj [(''prompt'', JStr p2), (''artifacts'', arts), (''plan'', plan)]))"
proof -
  from run_payload obtain arts plan where
    payload: "\<And>p ctx. fst (run_langraph_pipeline None p ctx) =
       Some (JObj [(''prompt'', JStr p), (''artifacts'', arts), (''plan'', plan)])"
    by blast
  have fresh: "run_langraph_pipeline None q c =
      (Some (JObj [(''prompt'', JStr q), (''artifacts'', arts), (''plan'', plan)]),
       Some build_graph)" for q c
    using cache_after_first_run [of q c] payload [of q c] by (metis prod.collapse)
  have cached: "run_langraph_pipeline (Some build_graph) q c =
      (Some (JObj [(''prompt'', JStr q), (''artifacts'', arts), (''plan'', plan)]),
       Some build_graph)" for q c
    using cache_after_later_run [of q c] run_cached_same [of q c] payload [of q c]
    by (metis prod.collapse)
  show ?thesis
    by (intro exI [of _ arts] exI [of _ plan]) (simp add: fresh cached)
qed

section \<open>The trace built from the agent's reply\<close>

lemma bears_name_key:
  assumes "py_key nm = Inr k"
  shows "bears_name nm r \<longleftrightarrow>
         (\<exists>v. dict_get r ''toolName'' JNull = Inr v \<and> py_key v = Inr k)"
  using assms by (auto simp: bears_name_def same_key_def split: sum.splits)

text \<open>
  The dict left by the loop over \<^verbatim>\<open>toolResults\<close>: under a key, the result of the last
  entry with that key, and what was there before when no entry has it.
\<close>

lemma collect_results_lookup:
  assumes "collect_results rs m = Inr m'" and "py_key nm = Inr k"
  shows "m' k = (case filter (bears_name nm) rs of
                   [] \<Rightarrow> m k
                 | r # rs' \<Rightarrow> Some (entry_result (last (r # rs'))))"
  using assms(1)
proof (induction rs arbitrary: m)
  case Nil
  then show ?case by simp
next
  case (Cons r rs)
  from Cons.prems obtain v kv k' where
    r: "dict_get r ''result'' JNull = Inr v" "dict_get r ''toolName'' JNull = Inr kv"
       "py_key kv = Inr k'" and rest: "collect_results rs (m(k' \<mapsto> v)) = Inr m'"
    by (auto split: sum.splits)
  have b: "bears_name nm r \<longleftrightarrow> k' = k"
    using r by (auto simp: bears_name_key [OF assms(2)])
  have er: "entry_result r = v" using r by (simp add: entry_result_def)
  show ?case
    using Cons.IH [OF rest] b er
    by (auto split: list.splits)
qed

lemma mapE_Inr:
  "mapE f xs = Inr ys \<Longrightarrow>
   length ys = length xs \<and> (\<forall>i < length xs. f (xs ! i) = Inr (ys ! i))"
proof (induction xs arbitrary: ys)
  case Nil
  then show ?case by simp
next
  case (Cons x xs)
  then show ?case by (auto split: sum.splits simp: nth_Cons split: nat.splits)
qed

lemma trace_child_fields:
  assumes "trace_child m call = Inr child"
  shows "\<exists>nm k. dict_get call ''name'' JNull = Inr nm \<and> py_key nm = Inr k
            \<and> dict_get child ''name'' JNull = Inr nm
            \<and> dict_get child ''output'' JNull =
                Inr (case m k of None \<Rightarrow> JNull | Some v \<Rightarrow> v)"
  using assms by (auto simp: trace_child_def split: sum.splits)

text \<open>
  What a returned trace holds, in terms of the two lists \<open>build_trace\<close> walks.
\<close>

lemma build_trace_children:
  assumes "build_trace prompt_text agent_output = Inr trace"
  shows "\<exists>results calls children.
           tool_results agent_output = Inr results
         \<and> tool_calls agent_output = Inr calls
         \<and> trace_children trace = JArr children
         \<and> length children = length calls
         \<and> (\<forall>i < length calls. \<exists>nm.
               dict_get (calls ! i) ''name'' JNull = Inr nm
             \<and> dict_get (children ! i) ''name'' JNull = Inr nm
             \<and> dict_get (children ! i) ''output'' JNull =
                 Inr (last_result_for nm results))"
proof -
  from assms obtain response results m calls children where
    res: "tool_results agent_output = Inr results"
    and m: "collect_results results Map.empty = Inr m"
    and calls: "tool_calls agent_output = Inr calls"
    and ch: "mapE (trace_child m) calls = Inr children"
    and tr: "trace = JObj [(''name'', JStr ''agentic_service''), (''type'', JStr ''agent''),
                (''input'', JObj [(''input'', JStr prompt_text)]), (''output'', response),
                (''children'', JArr children)]"
    by (auto simp: build_trace_def split: sum.splits)
  from mapE_Inr [OF ch] have len: "length children = length calls"
    and each: "\<And>i. i < length calls \<Longrightarrow> trace_child m (calls ! i) = Inr (children ! i)"
    by auto
  have "\<exists>nm. dict_get (calls ! i) ''name'' JNull = Inr nm
            \<and> dict_get (children ! i) ''name'' JNull = Inr nm
            \<and> dict_get (children ! i) ''output'' JNull = Inr (last_result_for nm results)"
    if "i < length calls" for i
  proof -
    from trace_child_fields [OF each [OF that]] obtain nm k where
      f: "dict_get (calls ! i) ''name'' JNull = Inr nm" "py_key nm = Inr k"
         "dict_get (children ! i) ''name'' JNull = Inr nm"
         "dict_get (children ! i) ''output'' JNull =
            Inr (case m k of None \<Rightarrow> JNull | Some v \<Rightarrow> v)"
      by blast
    have "(case m k of None \<Rightarrow> JNull | Some v \<Rightarrow> v) = last_result_for nm results"
      using collect_results_lookup [OF m f(2)]
      by (simp add: last_result_for_def split: list.splits)
    with f show ?thesis by auto
  qed
  with res calls len tr show ?thesis by auto
qed

text \<open>
  The loops return on well-shaped entries: a result entry that is a dict with a hashable
  \<^verbatim>\<open>toolName\<close>, a call that is a dict with a hashable \<^verbatim>\<open>name\<close>.
\<close>

lemma collect_results_returns:
  assumes "\<forall>r \<in> set rs. \<exists>v k. dict_get r ''toolName'' JNull = Inr v \<and> py_key v = Inr k"
  shows "\<exists>m'. collect_results rs m = Inr m'"
  using assms
proof (induction rs arbitrary: m)
  case Nil
  then show ?case by simp
next
  case (Cons r rs)
  from Cons.prems obtain v k where
    r: "dict_get r ''toolName'' JNull = Inr v" "py_key v = Inr k"
    by auto
  then obtain fields where fields: "r = JObj fields"
    by (cases r) auto
  from Cons.prems have
    "\<forall>r \<in> set rs. \<exists>v k. dict_get r ''toolName'' JNull = Inr v \<and> py_key v = Inr k"
    by simp
  from Cons.IH [OF this] obtain m' where
    "collect_results rs
       (m(k \<mapsto> (case map_of fields ''result'' of None \<Rightarrow> JNull | Some x \<Rightarrow> x))) = Inr m'"
    by blast
  with r fields show ?case by simp
qed

lemma trace_child_returns:
  assumes "dict_get call ''name'' JNull = Inr nm" and "py_key nm = Inr k"
  shows "\<exists>child. trace_child m call = Inr child"
proof -
  from assms(1) obtain fields where "call = JObj fields"
    by (cases call) auto
  with assms show ?thesis by (simp add: trace_child_def)
qed

lemma mapE_returns:
  assumes "\<forall>x \<in> set xs. \<exists>y. f x = Inr y"
  shows "\<exists>ys. mapE f xs = Inr ys"
  using assms
proof (induction xs)
  case Nil
  then show ?case by simp
next
  case (Cons x xs)
  then obtain y ys where "f x = Inr y" "mapE f xs = Inr ys" by auto
  then show ?case by simp
qed

text \<open>
  C9. Take a reply whose \<^verbatim>\<open>toolCalls\<close> is the list \<open>calls\<close> and whose
  \<^verbatim>\<open>metadata.toolResults\<close> is the list \<open>results\<close>, every result entry a dict with a
  hashable \<^verbatim>\<open>toolName\<close> and every call a dict with a hashable \<^verbatim>\<open>name\<close>. Then
  \<open>build_trace\<close> returns a trace with one child per call, in the reported order; each
  child carries the call's name, and its output is the result of the last entry of
  \<open>results\<close> bearing that name, or null when no entry bears it. Calls that share a name
  therefore all receive the same, last, result.
\<close>

theorem last_write_wins:
  assumes "map_of reply ''toolCalls'' = Some (JArr calls)"
    and "map_of reply ''metadata'' = Some (JObj metadata)"
    and "map_of metadata ''toolResults'' = Some (JArr results)"
    and "\<forall>r \<in> set results. \<exists>v k. dict_get r ''toolName'' JNull = Inr v \<and> py_key v = Inr k"
    and "\<forall>c \<in> set calls. \<exists>v k. dict_get c ''name'' JNull = Inr v \<and> py_key v = Inr k"
  shows "\<exists>children.
           build_trace prompt_text (JObj reply) =
             Inr (JObj [(''name'', JStr ''agentic_service''),
                        (''type'', JStr ''agent''),
                        (''input'', JObj [(''input'', JStr prompt_text)]),
                        (''output'',
                           (case map_of reply ''response'' of None \<Rightarrow> JStr [] | Some v \<Rightarrow> v)),
                        (''children'', JArr children)])
         \<and> length children = length calls
         \<and> (\<forall>i < length calls. \<exists>nm.
               dict_get (calls ! i) ''name'' JNull = Inr nm
             \<and> dict_get (children ! i) ''name'' JNull = Inr nm
             \<and> dict_get (children ! i) ''output'' JNull =
                 Inr (last_result_for nm results))"
proof -
  from assms(3) have "metadata \<noteq> []" by auto
  with assms(2,3) have res: "tool_results (JObj reply) = Inr results"
    by (simp add: tool_results_def)
  from assms(1) have cs: "tool_calls (JObj reply) = Inr calls"
    by (simp add: tool_calls_def)
  from collect_results_returns [OF assms(4)] obtain m where
    m: "collect_results results Map.empty = Inr m"
    by blast
  from assms(5) have "\<forall>c \<in> set calls. \<exists>child. trace_child m c = Inr child"
    by (blast dest: trace_child_returns)
  from mapE_returns [OF this] obtain children where
    ch: "mapE (trace_child m) calls = Inr children"
    by blast
  let ?trace = "JObj [(''name'', JStr ''agentic_service''),
                      (''type'', JStr ''agent''),
                      (''input'', JObj [(''input'', JStr prompt_text)]),
                      (''output'',
                         (case map_of reply ''response'' of None \<Rightarrow> JStr [] | Some v \<Rightarrow> v)),
                      (''children'', JArr children)]"
  have built: "build_trace prompt_text (JObj reply) = Inr ?trace"
    by (simp add: build_trace_def res cs m ch)
  from build_trace_children [OF built] obtain results' calls' children' where
    w: "tool_results (JObj reply) = Inr results'" "tool_calls (JObj reply) = Inr calls'"
       "trace_children ?trace = JArr children'" "length children' = length calls'"
       "\<forall>i < length calls'. \<exists>nm.
               dict_get (calls' ! i) ''name'' JNull = Inr nm
             \<and> dict_get (children' ! i) ''name'' JNull = Inr nm
             \<and> dict_get (children' ! i) ''output'' JNull =
                 Inr (last_result_for nm results')"
    by blast
  from w(1) res have "results' = results" by simp
  moreover from w(2) cs have "calls' = calls" by simp
  moreover from w(3) have "children' = children" by simp
  ultimately show ?thesis using built w(4,5) by blast
qed

text \<open>
  The theorem on a reply with the calls \<^verbatim>\<open>math, rag, math\<close> and two results for
  \<^verbatim>\<open>math\<close>, 1 and then 2: the result for \<^verbatim>\<open>math\<close> is 2, the one for \<^verbatim>\<open>rag\<close> is
  null, and the trace with these outputs is the one \<open>build_trace\<close> returns.
\<close>

theorem last_write_wins_witness:
  "(let results = [JObj [(''toolName'', JStr ''math''), (''result'', JInt 1)],
                   JObj [(''toolName'', JStr ''math''), (''result'', JInt 2)]];
        calls = [JObj [(''name'', JStr ''math'')],
                 JObj [(''name'', JStr ''rag'')],
                 JObj [(''name'', JStr ''math'')]];
        metadata = [(''toolResults'', JArr results)];
        reply = [(''response'', JStr ''done''),
                 (''toolCalls'', JArr calls),
                 (''metadata'', JObj metadata)]
    in map_of reply ''toolCalls'' = Some (JArr calls)
     \<and> map_of reply ''metadata'' = Some (JObj metadata)
     \<and> map_of metadata ''toolResults'' = Some (JArr results)
     \<and> (\<forall>r \<in> set results. \<exists>v k. dict_get r ''toolName'' JNull = Inr v \<and> py_key v = Inr k)
     \<and> (\<forall>c \<in> set calls. \<exists>v k. dict_get c ''name'' JNull = Inr v \<and> py_key v = Inr k)
     \<and> (\<exists>children.
           build_trace ''Add, search, add again'' (JObj reply) =
             Inr (JObj [(''name'', JStr ''agentic_service''),
                        (''type'', JStr ''agent''),
                        (''input'', JObj [(''input'', JStr ''Add, search, add again'')]),
                        (''output'',
                           (case map_of reply ''response'' of None \<Rightarrow> JStr [] | Some v \<Rightarrow> v)),
                        (''children'', JArr children)])
         \<and> length children = length calls
         \<and> (\<forall>i < length calls. \<exists>nm.
               dict_get (calls ! i) ''name'' JNull = Inr nm
             \<and> dict_get (children ! i) ''name'' JNull = Inr nm
             \<and> dict_get (children ! i) ''output'' JNull =
                 Inr (last_result_for nm results)))
     \<and> last_result_for (JStr ''math'') results = JInt 2
     \<and> last_result_for (JStr ''rag'') results = JNull)"
proof -
  let ?results = "[JObj [(''toolName'', JStr ''math''), (''result'', JInt 1)],
                   JObj [(''toolName'', JStr ''math''), (''result'', JInt 2)]]"
  let ?calls = "[JObj [(''name'', JStr ''math'')],
                 JObj [(''name'', JStr ''rag'')],
                 JObj [(''name'', JStr ''math'')]]"
  let ?metadata = "[(''toolResults'', JArr ?results)]"
  let ?reply = "[(''response'', JStr ''done''),
                 (''toolCalls'', JArr ?calls),
                 (''metadata'', JObj ?metadata)]"
  have h1: "map_of ?reply ''toolCalls'' = Some (JArr ?calls)" by simp
  have h2: "map_of ?reply ''metadata'' = Some (JObj ?metadata)" by simp
  have h3: "map_of ?metadata ''toolResults'' = Some (JArr ?results)" by simp
  have h4: "\<forall>r \<in> set ?results. \<exists>v k. dict_get r ''toolName'' JNull = Inr v \<and> py_key v = Inr k"
    by simp
  have h5: "\<forall>c \<in> set ?calls. \<exists>v k. dict_get c ''name'' JNull = Inr v \<and> py_key v = Inr k"
    by simp
  note c = last_write_wins [OF h1 h2 h3 h4 h5, of "''Add, search, add again''"]
  have v1: "last_result_for (JStr ''math'') ?results = JInt 2"
    by (simp add: last_result_for_def bears_name_def same_key_def entry_result_def)
  have v2: "last_result_for (JStr ''rag'') ?results = JNull"
    by (simp add: last_result_for_def bears_name_def same_key_def entry_result_def)
  show ?thesis
    unfolding Let_def
    by (intro conjI h1 h2 h3 h4 h5 c v1 v2)
qed

section \<open>Tool invocations without a name\<close>

text \<open>
  The list of called tools handed to the Tool-Selection Scorer holds no empty name: a
  call whose name is missing, null or empty is left out of it.
\<close>

lemma build_tool_call_name:
  "build_tool_call nm ps = Inr t \<Longrightarrow> nm = JStr (name t)"
  by (auto simp: build_tool_call_def split: json.splits)

lemma called_from_named:
  "called_from calls = Inr ts \<Longrightarrow> \<forall>t \<in> set ts. name t \<noteq> []"
proof (induction calls arbitrary: ts)
  case Nil
  then show ?case by simp
next
  case (Cons call calls)
  from Cons.prems obtain c where c: "dict_get call ''name'' JNull = Inr c"
    by (auto split: sum.splits)
  show ?case
  proof (cases "truthy c")
    case False
    with Cons.prems c have "called_from calls = Inr ts" by simp
    then show ?thesis by (rule Cons.IH)
  next
    case True
    with Cons.prems c obtain nm ps t ts' where
      nm: "dict_get call ''name'' (JStr []) = Inr nm"
      and t: "build_tool_call nm ps = Inr t"
      and rest: "called_from calls = Inr ts'" and ts: "ts = t # ts'"
      by (auto split: sum.splits)
    from c nm True have "nm = c"
      by (cases call) (auto split: option.splits)
    with build_tool_call_name [OF t] True have "name t \<noteq> []" by auto
    with Cons.IH [OF rest] ts show ?thesis by simp
  qed
qed

lemma tools_called_named:
  "tools_called agent_output = Inr ts \<Longrightarrow> \<forall>t \<in> set ts. name t \<noteq> []"
  by (auto simp: tools_called_def split: sum.splits dest: called_from_named)

text \<open>
  A reply that reports a \<^verbatim>\<open>math\<close> call and a call with the empty name, evaluated
  step by step.
\<close>

lemma nameless_reply_called:
  "tools_called
     (JObj [(''response'', JStr ''42''),
            (''toolCalls'', JArr
               [JObj [(''name'', JStr ''math''),
                      (''parameters'', JObj [(''a'', JInt 15), (''b'', JInt 27)])],
                JObj [(''name'', JStr ''''), (''parameters'', JObj [])]])])
     = Inr [\<lparr>name = ''math'', parameters = JObj [(''a'', JInt 15), (''b'', JInt 27)]\<rparr>]"
  by (simp add: tools_called_def tool_calls_def build_tool_call_def)

lemma nameless_reply_trace:
  "build_trace ''Calculate 15 + 27 using the math tool''
     (JObj [(''response'', JStr ''42''),
            (''toolCalls'', JArr
               [JObj [(''name'', JStr ''math''),
                      (''parameters'', JObj [(''a'', JInt 15), (''b'', JInt 27)])],
                JObj [(''name'', JStr ''''), (''parameters'', JObj [])]])])
   = Inr (JObj
       [(''name'', JStr ''agentic_service''), (''type'', JStr ''agent''),
        (''input'', JObj [(''input'', JStr ''Calculate 15 + 27 using the math tool'')]),
        (''output'', JStr ''42''),
        (''children'', JArr
          [JObj [(''name'', JStr ''math''), (''type'', JStr ''tool''),
                 (''input'', JObj [(''inputParameters'',
                                    JObj [(''a'', JInt 15), (''b'', JInt 27)])]),
                 (''output'', JNull), (''children'', JArr [])],
           JObj [(''name'', JStr ''''), (''type'', JStr ''tool''),
                 (''input'', JObj [(''inputParameters'', JObj [])]),
                 (''output'', JNull), (''children'', JArr [])]])])"
  by (simp add: build_trace_def tool_results_def tool_calls_def trace_child_def)

lemma nameless_trace_sequence:
  "tool_sequence (JObj
       [(''name'', JStr ''agentic_service''), (''type'', JStr ''agent''),
        (''input'', JObj [(''input'', JStr ''Calculate 15 + 27 using the math tool'')]),
        (''output'', JStr ''42''),
        (''children'', JArr
          [JObj [(''name'', JStr ''math''), (''type'', JStr ''tool''),
                 (''input'', JObj [(''inputParameters'',
                                    JObj [(''a'', JInt 15), (''b'', JInt 27)])]),
                 (''output'', JNull), (''children'', JArr [])],
           JObj [(''name'', JStr ''''), (''type'', JStr ''tool''),
                 (''input'', JObj [(''inputParameters'', JObj [])]),
                 (''output'', JNull), (''children'', JArr [])]])])
   = Inr [JStr ''math'', JStr '''']"
  by (simp add: tool_sequence_def)

lemma nameless_trace_score:
  "get_score [''math''] (JObj
       [(''name'', JStr ''agentic_service''), (''type'', JStr ''agent''),
        (''input'', JObj [(''input'', JStr ''Calculate 15 + 27 using the math tool'')]),
        (''output'', JStr ''42''),
        (''children'', JArr
          [JObj [(''name'', JStr ''math''), (''type'', JStr ''tool''),
                 (''input'', JObj [(''inputParameters'',
                                    JObj [(''a'', JInt 15), (''b'', JInt 27)])]),
                 (''output'', JNull), (''children'', JArr [])],
           JObj [(''name'', JStr ''''), (''type'', JStr ''tool''),
                 (''input'', JObj [(''inputParameters'', JObj [])]),
                 (''output'', JNull), (''children'', JArr [])]])])
   = Inr \<lparr>score = 0, reason = ''Trace deviated from expected sequence: extra .''\<rparr>"
  unfolding get_score_def score_trace_def
  by (simp add: nameless_trace_sequence deviation_def extra_details_def str_join_def)

lemma math_alone_selected:
  "compute_selection_score True
     (Some [\<lparr>name = ''math'', parameters = JObj [(''a'', JInt 15), (''b'', JInt 27)]\<rparr>])
     [\<lparr>name = ''math'', parameters = JObj [(''a'', JInt 15), (''b'', JInt 27)]\<rparr>]
     (Some available_tools)
   = \<lparr>score = 1, reason = ''Tool selection matches expectation.''\<rparr>"
  by (simp add: compute_selection_score_def available_tools_def exact_match_check_def)

text \<open>
  C6, at a reply that reports a \<^verbatim>\<open>math\<close> call and a call with the empty name, for the
  scenario expecting \<^verbatim>\<open>[math]\<close>. The list of called tools holds \<^verbatim>\<open>math\<close> alone, but
  the trace keeps a child for the nameless call: the sequence judged by the
  Step-Efficiency Scorer has two entries, and the scenario gets 1.0 for selection and 0.0
  for efficiency.
\<close>

theorem nameless_call_stays_in_trace:
  "tools_called
     (JObj [(''response'', JStr ''42''),
            (''toolCalls'', JArr
               [JObj [(''name'', JStr ''math''),
                      (''parameters'', JObj [(''a'', JInt 15), (''b'', JInt 27)])],
                JObj [(''name'', JStr ''''), (''parameters'', JObj [])]])])
     = Inr [\<lparr>name = ''math'', parameters = JObj [(''a'', JInt 15), (''b'', JInt 27)]\<rparr>]
   \<and> (case build_trace ''Calculate 15 + 27 using the math tool''
            (JObj [(''response'', JStr ''42''),
                   (''toolCalls'', JArr
                      [JObj [(''name'', JStr ''math''),
                             (''parameters'', JObj [(''a'', JInt 15), (''b'', JInt 27)])],
                       JObj [(''name'', JStr ''''), (''parameters'', JObj [])]])]) of
         Inl e \<Rightarrow> False
       | Inr trace \<Rightarrow> tool_sequence trace = Inr [JStr ''math'', JStr ''''])
   \<and> scenario_scores ''Calculate 15 + 27 using the math tool''
        [\<lparr>name = ''math'', parameters = JObj [(''a'', JInt 15), (''b'', JInt 27)]\<rparr>]
        (JObj [(''response'', JStr ''42''),
               (''toolCalls'', JArr
                  [JObj [(''name'', JStr ''math''),
                         (''parameters'', JObj [(''a'', JInt 15), (''b'', JInt 27)])],
                   JObj [(''name'', JStr ''''), (''parameters'', JObj [])]])])
     = Inr (\<lparr>score = 1, reason = ''Tool selection matches expectation.''\<rparr>,
            \<lparr>score = 0, reason = ''Trace deviated from expected sequence: extra .''\<rparr>)"
  by (simp add: nameless_reply_called nameless_reply_trace nameless_trace_sequence
      scenario_scores_def nameless_trace_score math_alone_selected)

text \<open>
  C1, at a reply that reports one call without a name, for the expected sequence
  \<^verbatim>\<open>[math]\<close>. The trace has one child, whose name is null; the observed sequence differs
  from the expected one, and the scorer does not return 0.0: joining the extra names
  raises \<^verbatim>\<open>TypeError\<close>.
\<close>

theorem null_name_raises:
  "(case build_trace ''Calculate 15 + 27 using the math tool''
            (JObj [(''response'', JStr ''42''),
                   (''toolCalls'', JArr
                      [JObj [(''parameters'', JObj [(''a'', JInt 15), (''b'', JInt 27)])]])]) of
      Inl e \<Rightarrow> False
    | Inr trace \<Rightarrow>
        tool_sequence trace = Inr [JNull]
      \<and> [JNull] \<noteq> map JStr [''math'']
      \<and> score_trace [''math''] trace = Inl TypeError)"
  by (simp add: build_trace_def tool_results_def tool_calls_def trace_child_def
      score_trace_def tool_sequence_def deviation_def extra_details_def str_join_def)

end
